theory Spec2Isabelle
  imports Complex_Main "HOL-Library.Log_Nat"
begin

section \<open>Tensors\<close>

text \<open>
  The kernel in \<^verbatim>\<open>norse/torch/functional/stdp_sensor.py\<close> works on
  \<^verbatim>\<open>torch.Tensor\<close> values with the element-wise operators \<^verbatim>\<open>+\<close>,
  \<^verbatim>\<open>*\<close> and unary \<^verbatim>\<open>-\<close>.  A tensor is modelled as the function from
  its index set \<open>'i\<close> to its elements; a 0-dimensional tensor is a tensor over
  \<^typ>\<open>unit\<close>.  All operands of one call are taken over the same index set,
  that is after broadcasting: a scalar operand such as \<^verbatim>\<open>torch.tensor(1.0)\<close>
  is the constant function.  Operands whose shapes cannot be broadcast make the
  array library raise before any element is computed; such calls are outside
  this model.

  The update is read twice.  In this first reading the elements are real
  numbers and the arithmetic is exact: it gives the formula the code computes.
  The second reading, further down, takes the tensors with dtype
  \<^verbatim>\<open>float32\<close>, that of the default parameters, with rounding, overflow,
  the infinities and NaN; properties that rounding or overflow can break are
  settled there.
\<close>

type_synonym 'i tensor = "'i \<Rightarrow> real"

definition torch_tensor :: "real \<Rightarrow> 'i tensor" where
  \<comment> \<open>\<^verbatim>\<open>torch.tensor(c)\<close>, broadcast over the index set\<close>
  "torch_tensor c = (\<lambda>_. c)"

definition tensor_neg :: "'i tensor \<Rightarrow> 'i tensor" where
  \<comment> \<open>\<^verbatim>\<open>-x\<close>\<close>
  "tensor_neg x = (\<lambda>i. - x i)"

definition tensor_add :: "'i tensor \<Rightarrow> 'i tensor \<Rightarrow> 'i tensor" where
  \<comment> \<open>\<^verbatim>\<open>x + y\<close>\<close>
  "tensor_add x y = (\<lambda>i. x i + y i)"

definition tensor_mul :: "'i tensor \<Rightarrow> 'i tensor \<Rightarrow> 'i tensor" where
  \<comment> \<open>\<^verbatim>\<open>x * y\<close>\<close>
  "tensor_mul x y = (\<lambda>i. x i * y i)"

definition float_mul :: "real \<Rightarrow> 'i tensor \<Rightarrow> 'i tensor" where
  \<comment> \<open>\<^verbatim>\<open>c * x\<close> for a Python float \<^verbatim>\<open>c\<close>\<close>
  "float_mul c x = (\<lambda>i. c * x i)"


section \<open>Parameters and state\<close>

text \<open>
  \<^verbatim>\<open>class STDPSensorParameters(NamedTuple)\<close>, four tensor fields in the order
  of the source, and \<^verbatim>\<open>class STDPSensorState(NamedTuple)\<close>, two.  The type
  parameter \<open>'t\<close> is the type of the tensors.
\<close>

record 't STDPSensorParameters =
  eta_p :: 't
  eta_m :: 't
  tau_ac_inv :: 't
  tau_c_inv :: 't

record 't STDPSensorState =
  a_pre :: 't
  a_post :: 't

definition STDPSensorParameters_default :: "'i tensor STDPSensorParameters" where
  \<comment> \<open>\<^verbatim>\<open>STDPSensorParameters()\<close>: every field at its default;
      \<^verbatim>\<open>100e-3\<close> is written \<open>100 / 10 ^ 3\<close>\<close>
  "STDPSensorParameters_default =
     \<lparr> eta_p = torch_tensor 1.0,
       eta_m = torch_tensor 1.0,
       tau_ac_inv = torch_tensor (1.0 / (100 / 10 ^ 3)),
       tau_c_inv = torch_tensor (1.0 / (100 / 10 ^ 3)) \<rparr>"

definition dt_default :: real where
  \<comment> \<open>\<^verbatim>\<open>dt: float = 0.001\<close>\<close>
  "dt_default = 0.001"


section \<open>The update\<close>

text \<open>
  \<^verbatim>\<open>stdp_sensor_step(z_pre, z_post, s, p, dt)\<close>, one binding of the
  \<^theory_text>\<open>let\<close> for each assignment of the source, in the source's order
  and with the source's operand order.
\<close>

definition stdp_sensor_step ::
  "'i tensor \<Rightarrow> 'i tensor \<Rightarrow> 'i tensor STDPSensorState \<Rightarrow> 'i tensor STDPSensorParameters \<Rightarrow> real
     \<Rightarrow> 'i tensor \<times> 'i tensor STDPSensorState" where
  "stdp_sensor_step z_pre z_post s p dt =
     (let da_pre = tensor_mul (tau_c_inv p) (tensor_neg (a_pre s));
          a_pre_decayed = tensor_add (a_pre s) (float_mul dt da_pre);
          da_post = tensor_mul (tau_c_inv p) (tensor_neg (a_post s));
          a_post_decayed = tensor_add (a_post s) (float_mul dt da_post);
          a_pre_new = tensor_add a_pre_decayed (tensor_mul z_pre (eta_p p));
          a_post_new = tensor_add a_post_decayed (tensor_mul z_post (eta_m p));
          dw = tensor_add (tensor_mul z_pre a_pre_new) (tensor_mul z_post a_post_new)
      in (dw, \<lparr> a_pre = a_pre_new, a_post = a_post_new \<rparr>))"

text \<open>
  A call site may leave out \<^verbatim>\<open>p\<close> and \<^verbatim>\<open>dt\<close>; Python then binds
  them to the defaults of the signature.  An omitted argument is \<open>None\<close>.
\<close>

definition stdp_sensor_step_call ::
  "'i tensor \<Rightarrow> 'i tensor \<Rightarrow> 'i tensor STDPSensorState \<Rightarrow> 'i tensor STDPSensorParameters option
     \<Rightarrow> real option \<Rightarrow> 'i tensor \<times> 'i tensor STDPSensorState" where
  "stdp_sensor_step_call z_pre z_post s p_arg dt_arg =
     stdp_sensor_step z_pre z_post s
       (case p_arg of None \<Rightarrow> STDPSensorParameters_default | Some p \<Rightarrow> p)
       (case dt_arg of None \<Rightarrow> dt_default | Some dt \<Rightarrow> dt)"


section \<open>Elements of dtype float32\<close>

text \<open>
  A \<^verbatim>\<open>float32\<close> element is a finite number, one of the two infinities or
  NaN.  A finite element is kept as the real number it denotes; the two zeros
  are one element, which the three operations of the kernel cannot tell apart
  except in the sign of a zero result.

  Every operation computes the exact result and rounds it to the nearest
  \<^verbatim>\<open>float32\<close>, ties to the even significand.  In units of \<open>2\<^sup>-\<^sup>1\<^sup>4\<^sup>9\<close>, the
  smallest positive \<^verbatim>\<open>float32\<close>, the representable numbers below
  \<open>2\<^sup>2\<^sup>4\<close> are the integers, and a number of \<open>24 + s\<close> bits is rounded
  to a multiple of \<open>2\<^sup>s\<close>.  A result at or beyond
  \<open>2\<^sup>1\<^sup>2\<^sup>8 - 2\<^sup>1\<^sup>0\<^sup>3\<close>, half a step above the largest finite
  \<^verbatim>\<open>float32\<close>, overflows to an infinity.
\<close>

datatype f32 = Finite real | PosInf | NegInf | NaN

definition round_half_even :: "real \<Rightarrow> int" where
  "round_half_even r =
     (let f = \<lfloor>r\<rfloor>
      in if r - of_int f < 1 / 2 then f
         else if 1 / 2 < r - of_int f then f + 1
         else if even f then f else f + 1)"

definition round_units :: "real \<Rightarrow> real" where
  \<comment> \<open>a non-negative number of units, rounded to 24 significant bits\<close>
  "round_units X =
     (let s = nat (bitlen \<lfloor>X\<rfloor> - 24)
      in of_int (round_half_even (X / 2 ^ s)) * 2 ^ s)"

definition round_f32 :: "real \<Rightarrow> real" where
  "round_f32 x = sgn x * round_units (\<bar>x\<bar> * 2 ^ 149) / 2 ^ 149"

definition f32_of_real :: "real \<Rightarrow> f32" where
  "f32_of_real x =
     (if 2 ^ 128 - 2 ^ 103 \<le> x then PosInf
      else if x \<le> - (2 ^ 128 - 2 ^ 103) then NegInf
      else Finite (round_f32 x))"

fun is_finite :: "f32 \<Rightarrow> bool" where
  \<comment> \<open>\<^verbatim>\<open>torch.isfinite\<close>\<close>
  "is_finite (Finite x) = True"
| "is_finite PosInf = False"
| "is_finite NegInf = False"
| "is_finite NaN = False"

fun is_f32 :: "f32 \<Rightarrow> bool" where
  \<comment> \<open>the element is a \<^verbatim>\<open>float32\<close>: if finite, a representable one\<close>
  "is_f32 (Finite x) = (f32_of_real x = Finite x)"
| "is_f32 PosInf = True"
| "is_f32 NegInf = True"
| "is_f32 NaN = True"

definition exact_f32 :: "real \<Rightarrow> bool" where
  \<comment> \<open>the real number is a finite \<^verbatim>\<open>float32\<close>: rounding leaves it alone\<close>
  "exact_f32 x = (f32_of_real x = Finite x)"

fun f32_neg :: "f32 \<Rightarrow> f32" where
  "f32_neg (Finite x) = Finite (- x)"
| "f32_neg PosInf = NegInf"
| "f32_neg NegInf = PosInf"
| "f32_neg NaN = NaN"

fun f32_add :: "f32 \<Rightarrow> f32 \<Rightarrow> f32" where
  "f32_add (Finite x) (Finite y) = f32_of_real (x + y)"
| "f32_add (Finite x) PosInf = PosInf"
| "f32_add (Finite x) NegInf = NegInf"
| "f32_add PosInf (Finite y) = PosInf"
| "f32_add PosInf PosInf = PosInf"
| "f32_add PosInf NegInf = NaN"
| "f32_add NegInf (Finite y) = NegInf"
| "f32_add NegInf PosInf = NaN"
| "f32_add NegInf NegInf = NegInf"
| "f32_add NaN y = NaN"
| "f32_add x NaN = NaN"

fun f32_mul :: "f32 \<Rightarrow> f32 \<Rightarrow> f32" where
  "f32_mul (Finite x) (Finite y) = f32_of_real (x * y)"
| "f32_mul (Finite x) PosInf = (if x = 0 then NaN else if 0 < x then PosInf else NegInf)"
| "f32_mul (Finite x) NegInf = (if x = 0 then NaN else if 0 < x then NegInf else PosInf)"
| "f32_mul PosInf (Finite y) = (if y = 0 then NaN else if 0 < y then PosInf else NegInf)"
| "f32_mul PosInf PosInf = PosInf"
| "f32_mul PosInf NegInf = NegInf"
| "f32_mul NegInf (Finite y) = (if y = 0 then NaN else if 0 < y then NegInf else PosInf)"
| "f32_mul NegInf PosInf = NegInf"
| "f32_mul NegInf NegInf = PosInf"
| "f32_mul NaN y = NaN"
| "f32_mul x NaN = NaN"




section \<open>The update on float32 tensors\<close>

text \<open>
  The same seven assignments, every operator now the \<^verbatim>\<open>float32\<close> one.
  \<^verbatim>\<open>torch.tensor(c)\<close> and the Python float \<^verbatim>\<open>dt\<close> in
  \<^verbatim>\<open>dt * da_pre\<close> are converted to \<^verbatim>\<open>float32\<close> first.
\<close>

type_synonym 'i tensor_f32 = "'i \<Rightarrow> f32"

definition torch_tensor_f32 :: "real \<Rightarrow> 'i tensor_f32" where
  "torch_tensor_f32 c = (\<lambda>_. f32_of_real c)"

definition tensor_neg_f32 :: "'i tensor_f32 \<Rightarrow> 'i tensor_f32" where
  "tensor_neg_f32 x = (\<lambda>i. f32_neg (x i))"

definition tensor_add_f32 :: "'i tensor_f32 \<Rightarrow> 'i tensor_f32 \<Rightarrow> 'i tensor_f32" where
  "tensor_add_f32 x y = (\<lambda>i. f32_add (x i) (y i))"

definition tensor_mul_f32 :: "'i tensor_f32 \<Rightarrow> 'i tensor_f32 \<Rightarrow> 'i tensor_f32" where
  "tensor_mul_f32 x y = (\<lambda>i. f32_mul (x i) (y i))"

definition float_mul_f32 :: "real \<Rightarrow> 'i tensor_f32 \<Rightarrow> 'i tensor_f32" where
  "float_mul_f32 c x = (\<lambda>i. f32_mul (f32_of_real c) (x i))"

definition STDPSensorParameters_default_f32 :: "'i tensor_f32 STDPSensorParameters" where
  "STDPSensorParameters_default_f32 =
     \<lparr> eta_p = torch_tensor_f32 1.0,
       eta_m = torch_tensor_f32 1.0,
       tau_ac_inv = torch_tensor_f32 (1.0 / (100 / 10 ^ 3)),
       tau_c_inv = torch_tensor_f32 (1.0 / (100 / 10 ^ 3)) \<rparr>"

definition stdp_sensor_step_f32 ::
  "'i tensor_f32 \<Rightarrow> 'i tensor_f32 \<Rightarrow> 'i tensor_f32 STDPSensorState
     \<Rightarrow> 'i tensor_f32 STDPSensorParameters \<Rightarrow> real
     \<Rightarrow> 'i tensor_f32 \<times> 'i tensor_f32 STDPSensorState" where
  "stdp_sensor_step_f32 z_pre z_post s p dt =
     (let da_pre = tensor_mul_f32 (tau_c_inv p) (tensor_neg_f32 (a_pre s));
          a_pre_decayed = tensor_add_f32 (a_pre s) (float_mul_f32 dt da_pre);
          da_post = tensor_mul_f32 (tau_c_inv p) (tensor_neg_f32 (a_post s));
          a_post_decayed = tensor_add_f32 (a_post s) (float_mul_f32 dt da_post);
          a_pre_new = tensor_add_f32 a_pre_decayed (tensor_mul_f32 z_pre (eta_p p));
          a_post_new = tensor_add_f32 a_post_decayed (tensor_mul_f32 z_post (eta_m p));
          dw = tensor_add_f32 (tensor_mul_f32 z_pre a_pre_new) (tensor_mul_f32 z_post a_post_new)
      in (dw, \<lparr> a_pre = a_pre_new, a_post = a_post_new \<rparr>))"


section \<open>Element-wise reading of the update\<close>

lemmas tensor_ops = torch_tensor_def tensor_neg_def tensor_add_def tensor_mul_def float_mul_def

lemma stdp_sensor_step_dw:
  "fst (stdp_sensor_step z_pre z_post s p dt) i =
     z_pre i * (a_pre s i + dt * (tau_c_inv p i * (- a_pre s i)) + z_pre i * eta_p p i)
       + z_post i * (a_post s i + dt * (tau_c_inv p i * (- a_post s i)) + z_post i * eta_m p i)"
  by (simp add: stdp_sensor_step_def Let_def tensor_ops)




section \<open>Independence of the anti-correlation time constant\<close>

text \<open>
  C2.  The result of \<open>stdp_sensor_step\<close> does not depend on the field
  \<open>tau_ac_inv\<close>: replacing it by any other tensor, everything else the same,
  gives the same weight change and the same new state.  Both traces decay with
  \<open>tau_c_inv\<close>.
\<close>

theorem stdp_sensor_step_tau_ac_inv_unused:
  "stdp_sensor_step z_pre z_post s (p\<lparr>tau_ac_inv := t\<rparr>) dt = stdp_sensor_step z_pre z_post s p dt"
  by (simp add: stdp_sensor_step_def)


section \<open>The update as three element-wise steps\<close>



section \<open>A concrete step\<close>

text \<open>
  C5.  With both traces \<open>0.0\<close>, \<open>z_pre = 1.0\<close>, \<open>z_post = 0.0\<close>,
  \<open>eta_p = eta_m = 1.0\<close>, \<open>tau_c_inv = 10.0\<close> and \<open>dt = 0.001\<close>
  (whatever \<open>tau_ac_inv\<close> is), the step returns \<open>dw = 1.0\<close> and the new
  state \<open>(1.0, 0.0)\<close>.
\<close>

theorem stdp_sensor_step_concrete:
  "stdp_sensor_step (torch_tensor 1.0) (torch_tensor 0.0)
     \<lparr> a_pre = torch_tensor 0.0, a_post = torch_tensor 0.0 \<rparr>
     \<lparr> eta_p = torch_tensor 1.0, eta_m = torch_tensor 1.0,
       tau_ac_inv = t, tau_c_inv = torch_tensor 10.0 \<rparr> 0.001
   = (torch_tensor 1.0, \<lparr> a_pre = torch_tensor 1.0, a_post = torch_tensor 0.0 \<rparr>)"
  by (simp add: stdp_sensor_step_def Let_def tensor_ops)


section \<open>Default arguments\<close>

text \<open>
  C7.  A call that leaves out the parameters and the step uses
  \<open>eta_p = eta_m = 1.0\<close>, \<open>tau_ac_inv = tau_c_inv = 10.0\<close> and
  \<open>dt = 0.001\<close>: it equals the call that passes these values, and so does a
  call that leaves out only one of the two.
\<close>

theorem stdp_sensor_step_call_defaults:
  "stdp_sensor_step_call z_pre z_post s None None =
     stdp_sensor_step_call z_pre z_post s
       (Some \<lparr> eta_p = torch_tensor 1.0, eta_m = torch_tensor 1.0,
               tau_ac_inv = torch_tensor 10.0, tau_c_inv = torch_tensor 10.0 \<rparr>)
       (Some 0.001)
   \<and> stdp_sensor_step_call z_pre z_post s None (Some dt) =
     stdp_sensor_step_call z_pre z_post s
       (Some \<lparr> eta_p = torch_tensor 1.0, eta_m = torch_tensor 1.0,
               tau_ac_inv = torch_tensor 10.0, tau_c_inv = torch_tensor 10.0 \<rparr>)
       (Some dt)
   \<and> stdp_sensor_step_call z_pre z_post s (Some p) None =
     stdp_sensor_step_call z_pre z_post s (Some p) (Some 0.001)"
  by (simp add: stdp_sensor_step_call_def STDPSensorParameters_default_def dt_default_def)


section \<open>Exchanging the two roles\<close>

text \<open>
  C10.  Exchanging \<open>z_pre\<close> with \<open>z_post\<close>, \<open>a_pre\<close> with \<open>a_post\<close>
  and \<open>eta_p\<close> with \<open>eta_m\<close> exchanges the two traces of the returned state
  and leaves \<open>dw\<close> as it was.
\<close>

theorem stdp_sensor_step_swap:
  "stdp_sensor_step z_post z_pre
     \<lparr> a_pre = a_post s, a_post = a_pre s \<rparr>
     \<lparr> eta_p = eta_m p, eta_m = eta_p p, tau_ac_inv = tau_ac_inv p, tau_c_inv = tau_c_inv p \<rparr> dt
   = (fst (stdp_sensor_step z_pre z_post s p dt),
      \<lparr> a_pre = a_post (snd (stdp_sensor_step z_pre z_post s p dt)),
        a_post = a_pre (snd (stdp_sensor_step z_pre z_post s p dt)) \<rparr>)"
  by (simp add: stdp_sensor_step_def Let_def tensor_ops add.commute)


section \<open>Scaling the spikes from the zero state\<close>

text \<open>
  C3, as stated, fails.  From the zero state with both spike inputs \<open>1\<close> and
  the default parameters and step, the weight change is \<open>2\<close>; with both spike
  inputs scaled by \<open>k = 2\<close> it is \<open>8\<close>, not \<open>2 * 2\<close>.
\<close>

theorem stdp_sensor_step_scaling_counterexample:
  "fst (stdp_sensor_step (float_mul 2 (torch_tensor 1)) (float_mul 2 (torch_tensor 1))
          \<lparr> a_pre = torch_tensor 0, a_post = torch_tensor 0 \<rparr>
          STDPSensorParameters_default dt_default) ()
   \<noteq> 2 * fst (stdp_sensor_step (torch_tensor 1) (torch_tensor 1)
          \<lparr> a_pre = torch_tensor 0, a_post = torch_tensor 0 \<rparr>
          STDPSensorParameters_default dt_default) ()"
  by (simp add: stdp_sensor_step_dw STDPSensorParameters_default_def dt_default_def tensor_ops)


section \<open>Decay without spikes\<close>



section \<open>Rounding to float32\<close>

text \<open>
  What the rest needs of the rounding: it fixes \<open>0\<close>, commutes with negation, is
  monotone, at most doubles a non-negative number, and leaves the double of a
  representable number alone.
\<close>

lemmas tensor_f32_ops =
  torch_tensor_f32_def tensor_neg_f32_def tensor_add_f32_def tensor_mul_f32_def float_mul_f32_def

lemmas f32_eval =
  f32_of_real_def round_f32_def round_units_def round_half_even_def Let_def compute_bitlen

lemma round_half_even_cases:
  "round_half_even r = \<lfloor>r\<rfloor> \<or> round_half_even r = \<lfloor>r\<rfloor> + 1"
  by (simp add: round_half_even_def Let_def)

lemma round_half_even_of_int [simp]: "round_half_even (of_int k) = k"
  by (simp add: round_half_even_def)

lemma round_half_even_mono:
  assumes "r \<le> r'"
  shows "round_half_even r \<le> round_half_even r'"
proof (cases "\<lfloor>r\<rfloor> = \<lfloor>r'\<rfloor>")
  case True
  with assms show ?thesis
    by (auto simp add: round_half_even_def Let_def)
next
  case False
  with assms have "\<lfloor>r\<rfloor> + 1 \<le> \<lfloor>r'\<rfloor>"
    using floor_mono [OF assms] by linarith
  moreover have "round_half_even r \<le> \<lfloor>r\<rfloor> + 1"
    using round_half_even_cases [of r] by linarith
  moreover have "\<lfloor>r'\<rfloor> \<le> round_half_even r'"
    using round_half_even_cases [of r'] by linarith
  ultimately show ?thesis by linarith
qed


lemma round_half_even_0 [simp]: "round_half_even 0 = 0"
  using round_half_even_of_int [of 0] by simp

lemma round_half_even_nonneg: "0 \<le> r \<Longrightarrow> 0 \<le> round_half_even r"
  using round_half_even_mono [of 0 r] by simp






lemma round_units_0 [simp]: "round_units 0 = 0"
  by (simp add: round_units_def)













section \<open>Finite and non-finite results\<close>

lemma round_f32_0 [simp]: "round_f32 0 = 0"
  by (simp add: round_f32_def)

lemma f32_of_real_0 [simp]: "f32_of_real 0 = Finite 0"
  by (simp add: f32_of_real_def)




lemma f32_mul_zero_finite: "is_finite y \<Longrightarrow> f32_mul (Finite 0) y = Finite 0"
  by (cases y) simp_all

lemma is_finite_f32_mul: "is_finite (f32_mul x y) \<Longrightarrow> is_finite x \<and> is_finite y"
  by (cases x; cases y) (simp_all split: if_splits)

lemma is_finite_f32_neg [simp]: "is_finite (f32_neg x) = is_finite x"
  by (cases x) simp_all


section \<open>Element-wise reading of the float32 update\<close>

lemma stdp_sensor_step_f32_a_pre:
  "a_pre (snd (stdp_sensor_step_f32 z_pre z_post s p dt)) i =
     f32_add (f32_add (a_pre s i)
                (f32_mul (f32_of_real dt) (f32_mul (tau_c_inv p i) (f32_neg (a_pre s i)))))
             (f32_mul (z_pre i) (eta_p p i))"
  by (simp add: stdp_sensor_step_f32_def Let_def tensor_f32_ops)

lemma stdp_sensor_step_f32_a_post:
  "a_post (snd (stdp_sensor_step_f32 z_pre z_post s p dt)) i =
     f32_add (f32_add (a_post s i)
                (f32_mul (f32_of_real dt) (f32_mul (tau_c_inv p i) (f32_neg (a_post s i)))))
             (f32_mul (z_post i) (eta_m p i))"
  by (simp add: stdp_sensor_step_f32_def Let_def tensor_f32_ops)

lemma stdp_sensor_step_f32_dw:
  "fst (stdp_sensor_step_f32 z_pre z_post s p dt) i =
     f32_add (f32_mul (z_pre i) (a_pre (snd (stdp_sensor_step_f32 z_pre z_post s p dt)) i))
             (f32_mul (z_post i) (a_post (snd (stdp_sensor_step_f32 z_pre z_post s p dt)) i))"
  by (simp add: stdp_sensor_step_f32_def Let_def tensor_f32_ops)


section \<open>What rounding leaves as it is\<close>

text \<open>
  Three properties of the exact reading hold on \<^verbatim>\<open>float32\<close> tensors
  word for word: the result does not depend on \<open>tau_ac_inv\<close>; the concrete
  step from the zero state with \<open>z_pre = 1.0\<close> returns \<open>dw = 1.0\<close>
  and the state \<open>(1.0, 0.0)\<close>; and exchanging the two roles exchanges the
  new traces and keeps \<open>dw\<close>, since \<^verbatim>\<open>float32\<close> addition commutes.
\<close>

lemma f32_add_commute: "f32_add x y = f32_add y x"
  by (cases x; cases y) (simp_all add: add.commute)

lemma stdp_sensor_step_f32_tau_ac_inv_unused:
  "stdp_sensor_step_f32 z_pre z_post s (p\<lparr>tau_ac_inv := t\<rparr>) dt
     = stdp_sensor_step_f32 z_pre z_post s p dt"
  by (simp add: stdp_sensor_step_f32_def)

lemma stdp_sensor_step_f32_concrete:
  "stdp_sensor_step_f32 (torch_tensor_f32 1.0) (torch_tensor_f32 0.0)
     \<lparr> a_pre = torch_tensor_f32 0.0, a_post = torch_tensor_f32 0.0 \<rparr>
     \<lparr> eta_p = torch_tensor_f32 1.0, eta_m = torch_tensor_f32 1.0,
       tau_ac_inv = t, tau_c_inv = torch_tensor_f32 10.0 \<rparr> 0.001
   = (torch_tensor_f32 1.0, \<lparr> a_pre = torch_tensor_f32 1.0, a_post = torch_tensor_f32 0.0 \<rparr>)"
  by (simp add: stdp_sensor_step_f32_def Let_def tensor_f32_ops f32_eval)

lemma stdp_sensor_step_f32_swap:
  "stdp_sensor_step_f32 z_post z_pre
     \<lparr> a_pre = a_post s, a_post = a_pre s \<rparr>
     \<lparr> eta_p = eta_m p, eta_m = eta_p p, tau_ac_inv = tau_ac_inv p, tau_c_inv = tau_c_inv p \<rparr> dt
   = (fst (stdp_sensor_step_f32 z_pre z_post s p dt),
      \<lparr> a_pre = a_post (snd (stdp_sensor_step_f32 z_pre z_post s p dt)),
        a_post = a_pre (snd (stdp_sensor_step_f32 z_pre z_post s p dt)) \<rparr>)"
  by (simp add: stdp_sensor_step_f32_def Let_def tensor_f32_ops f32_add_commute)


section \<open>Scaling the spikes, in float32\<close>

text \<open>
  From the zero state with finite \<open>tau_c_inv\<close> and \<open>dt\<close> the decay term is
  \<open>0\<close> and the new trace is the rounded product of spike and gain.
\<close>

lemma zero_trace_f32:
  assumes "is_finite tau" and "is_finite (f32_of_real dt)" and "exact_f32 (u * e)"
  shows "f32_add (f32_add (Finite 0) (f32_mul (f32_of_real dt) (f32_mul tau (f32_neg (Finite 0)))))
           (f32_mul (Finite u) (Finite e)) = Finite (u * e)"
proof -
  from assms(1) obtain t where t: "tau = Finite t" by (cases tau) simp_all
  from assms(2) obtain d where d: "f32_of_real dt = Finite d" by (cases "f32_of_real dt") simp_all
  from assms(3) show ?thesis
    by (simp add: t d exact_f32_def)
qed

lemma zero_state_dw_f32:
  assumes "is_finite (tau_c_inv p i)" and "is_finite (f32_of_real dt)"
    and "z_pre i = Finite u" and "z_post i = Finite v"
    and "eta_p p i = Finite ep" and "eta_m p i = Finite em"
    and "exact_f32 (u * ep)" and "exact_f32 (v * em)"
    and "exact_f32 (u * (u * ep))" and "exact_f32 (v * (v * em))"
    and "exact_f32 (u * (u * ep) + v * (v * em))"
  shows "fst (stdp_sensor_step_f32 z_pre z_post
            \<lparr> a_pre = torch_tensor_f32 0, a_post = torch_tensor_f32 0 \<rparr> p dt) i
         = Finite (u * (u * ep) + v * (v * em))"
proof -
  have pre: "a_pre (snd (stdp_sensor_step_f32 z_pre z_post
            \<lparr> a_pre = torch_tensor_f32 0, a_post = torch_tensor_f32 0 \<rparr> p dt)) i = Finite (u * ep)"
    using zero_trace_f32 [OF assms(1) assms(2) assms(7)]
    by (simp add: stdp_sensor_step_f32_a_pre torch_tensor_f32_def assms(3) assms(5))
  have post: "a_post (snd (stdp_sensor_step_f32 z_pre z_post
            \<lparr> a_pre = torch_tensor_f32 0, a_post = torch_tensor_f32 0 \<rparr> p dt)) i = Finite (v * em)"
    using zero_trace_f32 [OF assms(1) assms(2) assms(8)]
    by (simp add: stdp_sensor_step_f32_a_post torch_tensor_f32_def assms(4) assms(6))
  from assms(9-11) show ?thesis
    by (simp add: stdp_sensor_step_f32_dw pre post assms(3) assms(4) exact_f32_def)
qed

text \<open>
  With both spike inputs \<open>1\<close>, the default parameters and step and
  \<open>k = 2\<close>, every number of the two calls is a small integer and the
  \<^verbatim>\<open>float32\<close> update gives what exact arithmetic gives: \<open>dw = 8\<close>
  for the scaled spikes, and \<open>2 * dw = 4\<close> for the unscaled ones.
\<close>

lemma stdp_sensor_step_f32_scaling_at_two:
  "fst (stdp_sensor_step_f32 (float_mul_f32 2 (torch_tensor_f32 1)) (float_mul_f32 2 (torch_tensor_f32 1))
          \<lparr> a_pre = torch_tensor_f32 0, a_post = torch_tensor_f32 0 \<rparr>
          STDPSensorParameters_default_f32 dt_default) () = Finite 8
   \<and> float_mul_f32 2 (fst (stdp_sensor_step_f32 (torch_tensor_f32 1) (torch_tensor_f32 1)
          \<lparr> a_pre = torch_tensor_f32 0, a_post = torch_tensor_f32 0 \<rparr>
          STDPSensorParameters_default_f32 dt_default)) () = Finite 4"
  by (simp add: stdp_sensor_step_f32_dw stdp_sensor_step_f32_a_pre stdp_sensor_step_f32_a_post
        STDPSensorParameters_default_f32_def dt_default_def tensor_f32_ops f32_eval)

text \<open>
  C3, amended.  On \<^verbatim>\<open>float32\<close> tensors, starting from the zero state with
  finite \<open>tau_c_inv\<close> and \<open>dt\<close>, scaling both spike inputs by a constant
  \<open>k\<close> scales the returned \<open>dw\<close> by \<open>k\<^sup>2\<close> at every element where
  no product or sum of the two calls and of the scaling is rounded or
  overflows: the products \<open>z * eta\<close> and \<open>z * (z * eta)\<close> and their sum,
  for the spikes \<open>z\<close> and for the scaled spikes \<open>k * z\<close>, and \<open>k\<close>
  and \<open>k\<^sup>2\<close> themselves.
\<close>

theorem stdp_sensor_step_f32_scaling_square:
  assumes "is_finite (tau_c_inv p i)" and "is_finite (f32_of_real dt)"
    and "z_pre i = Finite u" and "z_post i = Finite v"
    and "eta_p p i = Finite ep" and "eta_m p i = Finite em"
    and "list_all exact_f32
          [u * ep, v * em, u * (u * ep), v * (v * em), u * (u * ep) + v * (v * em),
           k, k * u, k * v,
           k * u * ep, k * v * em, k * u * (k * u * ep), k * v * (k * v * em),
           k * u * (k * u * ep) + k * v * (k * v * em),
           k ^ 2]"
  shows "fst (stdp_sensor_step_f32 (float_mul_f32 k z_pre) (float_mul_f32 k z_post)
            \<lparr> a_pre = torch_tensor_f32 0, a_post = torch_tensor_f32 0 \<rparr> p dt) i
         = float_mul_f32 (k ^ 2)
             (fst (stdp_sensor_step_f32 z_pre z_post
                \<lparr> a_pre = torch_tensor_f32 0, a_post = torch_tensor_f32 0 \<rparr> p dt)) i"
proof -
  from assms(7) have ex:
    "exact_f32 (u * ep)" "exact_f32 (v * em)" "exact_f32 (u * (u * ep))" "exact_f32 (v * (v * em))"
    "exact_f32 (u * (u * ep) + v * (v * em))"
    "exact_f32 k" "exact_f32 (k * u)" "exact_f32 (k * v)"
    "exact_f32 (k * u * ep)" "exact_f32 (k * v * em)"
    "exact_f32 (k * u * (k * u * ep))" "exact_f32 (k * v * (k * v * em))"
    "exact_f32 (k * u * (k * u * ep) + k * v * (k * v * em))"
    "exact_f32 (k ^ 2)"
    by simp_all
  have one: "fst (stdp_sensor_step_f32 z_pre z_post
            \<lparr> a_pre = torch_tensor_f32 0, a_post = torch_tensor_f32 0 \<rparr> p dt) i
         = Finite (u * (u * ep) + v * (v * em))"
    using assms(1-6) ex(1-5) by (rule zero_state_dw_f32)
  have zp: "float_mul_f32 k z_pre i = Finite (k * u)"
    using ex(6,7) by (simp add: float_mul_f32_def assms(3) exact_f32_def)
  have zq: "float_mul_f32 k z_post i = Finite (k * v)"
    using ex(6,8) by (simp add: float_mul_f32_def assms(4) exact_f32_def)
  have two: "fst (stdp_sensor_step_f32 (float_mul_f32 k z_pre) (float_mul_f32 k z_post)
            \<lparr> a_pre = torch_tensor_f32 0, a_post = torch_tensor_f32 0 \<rparr> p dt) i
         = Finite (k * u * (k * u * ep) + k * v * (k * v * em))"
    using assms(1,2) zp zq assms(5,6) ex(9-13) by (rule zero_state_dw_f32)
  have alg: "k ^ 2 * (u * (u * ep) + v * (v * em)) = k * u * (k * u * ep) + k * v * (k * v * em)"
    by (simp add: power2_eq_square algebra_simps)
  from ex(13,14) show ?thesis
    unfolding two by (simp add: float_mul_f32_def one exact_f32_def alg)
qed

text \<open>
  The amended C3 at the spikes \<open>1\<close> and \<open>3\<close> with \<open>k = 2\<close>, the default
  parameters and step: \<open>dw\<close> goes from \<open>10\<close> to \<open>40\<close>.
\<close>

theorem stdp_sensor_step_f32_scaling_square_witness:
  "is_finite (tau_c_inv STDPSensorParameters_default_f32 ())
   \<and> is_finite (f32_of_real dt_default)
   \<and> torch_tensor_f32 1 () = Finite 1
   \<and> torch_tensor_f32 3 () = Finite 3
   \<and> eta_p STDPSensorParameters_default_f32 () = Finite 1
   \<and> eta_m STDPSensorParameters_default_f32 () = Finite 1
   \<and> list_all exact_f32 [1 * 1, 3 * 1, 1 * (1 * 1), 3 * (3 * 1), 1 * (1 * 1) + 3 * (3 * 1),
        2, 2 * 1, 2 * 3, 2 * 1 * 1, 2 * 3 * 1, 2 * 1 * (2 * 1 * 1), 2 * 3 * (2 * 3 * 1),
        2 * 1 * (2 * 1 * 1) + 2 * 3 * (2 * 3 * 1), 2 ^ 2]
   \<and> fst (stdp_sensor_step_f32 (float_mul_f32 2 (torch_tensor_f32 1)) (float_mul_f32 2 (torch_tensor_f32 3))
            \<lparr> a_pre = torch_tensor_f32 0, a_post = torch_tensor_f32 0 \<rparr>
            STDPSensorParameters_default_f32 dt_default) ()
       = float_mul_f32 (2 ^ 2)
           (fst (stdp_sensor_step_f32 (torch_tensor_f32 1) (torch_tensor_f32 3)
              \<lparr> a_pre = torch_tensor_f32 0, a_post = torch_tensor_f32 0 \<rparr>
              STDPSensorParameters_default_f32 dt_default)) ()
   \<and> float_mul_f32 (2 ^ 2)
           (fst (stdp_sensor_step_f32 (torch_tensor_f32 1) (torch_tensor_f32 3)
              \<lparr> a_pre = torch_tensor_f32 0, a_post = torch_tensor_f32 0 \<rparr>
              STDPSensorParameters_default_f32 dt_default)) () = Finite 40"
proof -
  have h1: "is_finite (tau_c_inv (STDPSensorParameters_default_f32 :: unit tensor_f32 STDPSensorParameters) ())"
    by (simp add: STDPSensorParameters_default_f32_def torch_tensor_f32_def f32_eval)
  have h2: "is_finite (f32_of_real dt_default)"
    by (simp add: dt_default_def f32_eval)
  have h3: "(torch_tensor_f32 1 :: unit tensor_f32) () = Finite 1"
    by (simp add: torch_tensor_f32_def f32_eval)
  have h4: "(torch_tensor_f32 3 :: unit tensor_f32) () = Finite 3"
    by (simp add: torch_tensor_f32_def f32_eval)
  have h5: "eta_p (STDPSensorParameters_default_f32 :: unit tensor_f32 STDPSensorParameters) () = Finite 1"
    by (simp add: STDPSensorParameters_default_f32_def torch_tensor_f32_def f32_eval)
  have h6: "eta_m (STDPSensorParameters_default_f32 :: unit tensor_f32 STDPSensorParameters) () = Finite 1"
    by (simp add: STDPSensorParameters_default_f32_def torch_tensor_f32_def f32_eval)
  have h7: "list_all exact_f32 [1 * 1, 3 * 1, 1 * (1 * 1), 3 * (3 * 1), 1 * (1 * 1) + 3 * (3 * 1),
        2, 2 * 1, 2 * 3, 2 * 1 * 1, 2 * 3 * 1, 2 * 1 * (2 * 1 * 1), 2 * 3 * (2 * 3 * 1),
        2 * 1 * (2 * 1 * 1) + 2 * 3 * (2 * 3 * 1), 2 ^ 2]"
    by (simp add: exact_f32_def f32_eval)
  have v: "float_mul_f32 (2 ^ 2)
           (fst (stdp_sensor_step_f32 (torch_tensor_f32 1) (torch_tensor_f32 3)
              \<lparr> a_pre = torch_tensor_f32 0, a_post = torch_tensor_f32 0 \<rparr>
              STDPSensorParameters_default_f32 dt_default)) () = Finite 40"
    by (simp add: stdp_sensor_step_f32_dw stdp_sensor_step_f32_a_pre stdp_sensor_step_f32_a_post
          STDPSensorParameters_default_f32_def dt_default_def tensor_f32_ops f32_eval)
  note sq = stdp_sensor_step_f32_scaling_square
      [where p = "STDPSensorParameters_default_f32 :: unit tensor_f32 STDPSensorParameters"
         and i = "()" and dt = dt_default
         and z_pre = "torch_tensor_f32 1" and z_post = "torch_tensor_f32 3"
         and u = 1 and v = 3 and ep = 1 and em = 1 and k = 2]
  from sq [OF h1 h2 h3 h4 h5 h6 h7] h1 h2 h3 h4 h5 h6 h7 v
  show ?thesis by blast
qed


section \<open>Decay without spikes, in float32\<close>




text \<open>
  With no spikes, the traces \<open>(1, 0)\<close>, \<open>tau_c_inv = 3\<close> and
  \<open>dt = 1\<close>, the \<^verbatim>\<open>float32\<close> update gives what exact arithmetic
  gives: the new traces are \<open>- 2\<close> and \<open>0\<close>.
\<close>

lemma stdp_sensor_step_f32_decay_at_three:
  "a_pre (snd (stdp_sensor_step_f32 (torch_tensor_f32 0) (torch_tensor_f32 0)
          \<lparr> a_pre = torch_tensor_f32 1, a_post = torch_tensor_f32 0 \<rparr>
          \<lparr> eta_p = torch_tensor_f32 1, eta_m = torch_tensor_f32 1,
            tau_ac_inv = torch_tensor_f32 3, tau_c_inv = torch_tensor_f32 3 \<rparr> 1)) () = Finite (- 2)
   \<and> a_post (snd (stdp_sensor_step_f32 (torch_tensor_f32 0) (torch_tensor_f32 0)
          \<lparr> a_pre = torch_tensor_f32 1, a_post = torch_tensor_f32 0 \<rparr>
          \<lparr> eta_p = torch_tensor_f32 1, eta_m = torch_tensor_f32 1,
            tau_ac_inv = torch_tensor_f32 3, tau_c_inv = torch_tensor_f32 3 \<rparr> 1)) () = Finite 0"
  by (simp add: stdp_sensor_step_f32_a_pre stdp_sensor_step_f32_a_post torch_tensor_f32_def f32_eval)



text \<open>
  The bound \<open>1\<close> on \<open>dt * tau_c_inv\<close> cannot be raised to \<open>2\<close>, the bound
  of exact arithmetic: here \<open>dt * tau_c_inv\<close> is just below \<open>2\<close> and the two
  roundings of the decay term carry the trace from \<open>15552371 / 2\<^sup>2\<^sup>3\<close> to
  \<open>- 15552373 / 2\<^sup>2\<^sup>3\<close>.
\<close>

lemma stdp_sensor_step_f32_decay_two:
  "13138785 / 2 ^ 24 * (5355803 / 2 ^ 21) \<le> (2::real)
   \<and> a_pre (snd (stdp_sensor_step_f32 (torch_tensor_f32 0) (torch_tensor_f32 0)
        \<lparr> a_pre = torch_tensor_f32 (15552371 / 2 ^ 23), a_post = torch_tensor_f32 0 \<rparr>
        \<lparr> eta_p = torch_tensor_f32 1, eta_m = torch_tensor_f32 1,
          tau_ac_inv = torch_tensor_f32 10, tau_c_inv = torch_tensor_f32 (5355803 / 2 ^ 21) \<rparr>
        (13138785 / 2 ^ 24))) ()
     = Finite (- 15552373 / 2 ^ 23)"
  by (simp add: stdp_sensor_step_f32_a_pre torch_tensor_f32_def f32_eval)


section \<open>A step of length zero, in float32\<close>

text \<open>
  C6, as stated, fails.  With \<open>dt = 0\<close>, the default parameters, \<open>z_pre = 1\<close>
  and \<open>a_pre = 3e38\<close>, the product \<open>tau_c_inv * (- a_pre)\<close> overflows to
  \<open>- inf\<close> and \<open>0 * (- inf)\<close> is NaN, so the new presynaptic trace is NaN
  and not \<open>a_pre + z_pre * eta_p\<close>, which is \<open>a_pre\<close>.
\<close>

theorem stdp_sensor_step_f32_dt_zero_counterexample:
  "a_pre (snd (stdp_sensor_step_f32 (torch_tensor_f32 1) (torch_tensor_f32 0)
          \<lparr> a_pre = torch_tensor_f32 (3 * 10 ^ 38), a_post = torch_tensor_f32 0 \<rparr>
          STDPSensorParameters_default_f32 0)) ()
   \<noteq> f32_add (torch_tensor_f32 (3 * 10 ^ 38) ())
        (f32_mul (torch_tensor_f32 1 ()) (eta_p STDPSensorParameters_default_f32 ()))"
  by (simp add: stdp_sensor_step_f32_a_pre STDPSensorParameters_default_f32_def
        torch_tensor_f32_def f32_eval)

lemma dt_zero_trace:
  assumes "is_f32 a" and "is_finite (f32_mul tau (f32_neg a))"
  shows "f32_add (f32_add a (f32_mul (f32_of_real 0) (f32_mul tau (f32_neg a)))) y = f32_add a y"
proof -
  from assms(2) obtain x where a: "a = Finite x"
    using is_finite_f32_mul [of tau "f32_neg a"] by (cases a) simp_all
  from assms(2) have "f32_mul (Finite 0) (f32_mul tau (f32_neg a)) = Finite 0"
    by (rule f32_mul_zero_finite)
  moreover from assms(1) a have "f32_of_real x = Finite x" by simp
  ultimately show ?thesis by (simp add: a)
qed

text \<open>
  C6, amended.  On \<^verbatim>\<open>float32\<close> tensors, with \<open>dt = 0\<close>, each trace
  updates as \<open>a_new = a_old + z * eta\<close> at every element where its old trace
  is a \<^verbatim>\<open>float32\<close> and the product \<open>tau_c_inv * (- a_old)\<close> is finite.
\<close>

theorem stdp_sensor_step_f32_dt_zero:
  "(is_f32 (a_pre s i) \<and> is_finite (f32_mul (tau_c_inv p i) (f32_neg (a_pre s i)))
      \<longrightarrow> a_pre (snd (stdp_sensor_step_f32 z_pre z_post s p 0)) i
            = f32_add (a_pre s i) (f32_mul (z_pre i) (eta_p p i)))
   \<and> (is_f32 (a_post s i) \<and> is_finite (f32_mul (tau_c_inv p i) (f32_neg (a_post s i)))
      \<longrightarrow> a_post (snd (stdp_sensor_step_f32 z_pre z_post s p 0)) i
            = f32_add (a_post s i) (f32_mul (z_post i) (eta_m p i)))"
  by (simp add: stdp_sensor_step_f32_a_pre stdp_sensor_step_f32_a_post dt_zero_trace
        del: f32_of_real_0)

text \<open>
  The amended C6 at the traces \<open>(1, 2)\<close>, the spikes \<open>(1, 0)\<close> and the
  default parameters: both new traces are \<open>2\<close>.
\<close>

theorem stdp_sensor_step_f32_dt_zero_witness:
  "is_f32 (torch_tensor_f32 1 ())
   \<and> is_finite (f32_mul (tau_c_inv STDPSensorParameters_default_f32 ()) (f32_neg (torch_tensor_f32 1 ())))
   \<and> is_f32 (torch_tensor_f32 2 ())
   \<and> is_finite (f32_mul (tau_c_inv STDPSensorParameters_default_f32 ()) (f32_neg (torch_tensor_f32 2 ())))
   \<and> a_pre (snd (stdp_sensor_step_f32 (torch_tensor_f32 1) (torch_tensor_f32 0)
         \<lparr> a_pre = torch_tensor_f32 1, a_post = torch_tensor_f32 2 \<rparr>
         STDPSensorParameters_default_f32 0)) () = Finite 2
   \<and> a_post (snd (stdp_sensor_step_f32 (torch_tensor_f32 1) (torch_tensor_f32 0)
         \<lparr> a_pre = torch_tensor_f32 1, a_post = torch_tensor_f32 2 \<rparr>
         STDPSensorParameters_default_f32 0)) () = Finite 2"
  using stdp_sensor_step_f32_dt_zero
          [of "\<lparr> a_pre = torch_tensor_f32 1, a_post = torch_tensor_f32 2 \<rparr>" "()"
              STDPSensorParameters_default_f32 "torch_tensor_f32 1" "torch_tensor_f32 0"]
  by (simp add: STDPSensorParameters_default_f32_def torch_tensor_f32_def f32_eval)


section \<open>Silent inputs, in float32\<close>

text \<open>
  C9, as stated, fails.  With no spikes, the default parameters and step and
  \<open>a_pre = 3e38\<close>, the product \<open>tau_c_inv * (- a_pre)\<close> overflows to
  \<open>- inf\<close>, the new presynaptic trace is \<open>- inf\<close>, and
  \<open>dw = 0 * (- inf) + 0 * 0\<close> is NaN, not zero.
\<close>

theorem stdp_sensor_step_f32_no_spikes_counterexample:
  "fst (stdp_sensor_step_f32 (torch_tensor_f32 0) (torch_tensor_f32 0)
          \<lparr> a_pre = torch_tensor_f32 (3 * 10 ^ 38), a_post = torch_tensor_f32 0 \<rparr>
          STDPSensorParameters_default_f32 dt_default) ()
   \<noteq> Finite 0"
  by (simp add: stdp_sensor_step_f32_dw stdp_sensor_step_f32_a_pre stdp_sensor_step_f32_a_post
        STDPSensorParameters_default_f32_def dt_default_def torch_tensor_f32_def f32_eval)

text \<open>
  C9, amended.  On \<^verbatim>\<open>float32\<close> tensors, when both spike inputs are zero
  the returned \<open>dw\<close> is zero at every element where the two new traces are
  finite.
\<close>

theorem stdp_sensor_step_f32_no_spikes_dw:
  assumes "is_finite (a_pre (snd (stdp_sensor_step_f32 (torch_tensor_f32 0) (torch_tensor_f32 0) s p dt)) i)"
      and "is_finite (a_post (snd (stdp_sensor_step_f32 (torch_tensor_f32 0) (torch_tensor_f32 0) s p dt)) i)"
  shows "fst (stdp_sensor_step_f32 (torch_tensor_f32 0) (torch_tensor_f32 0) s p dt) i = Finite 0"
  using assms
  by (simp add: stdp_sensor_step_f32_dw torch_tensor_f32_def f32_mul_zero_finite)

text \<open>
  The amended C9 at the default parameters and step from the traces
  \<open>(1.0, 0.0)\<close>.
\<close>

theorem stdp_sensor_step_f32_no_spikes_dw_witness:
  "is_finite (a_pre (snd (stdp_sensor_step_f32 (torch_tensor_f32 0) (torch_tensor_f32 0)
        \<lparr> a_pre = torch_tensor_f32 1, a_post = torch_tensor_f32 0 \<rparr>
        STDPSensorParameters_default_f32 dt_default)) ())
   \<and> is_finite (a_post (snd (stdp_sensor_step_f32 (torch_tensor_f32 0) (torch_tensor_f32 0)
        \<lparr> a_pre = torch_tensor_f32 1, a_post = torch_tensor_f32 0 \<rparr>
        STDPSensorParameters_default_f32 dt_default)) ())
   \<and> fst (stdp_sensor_step_f32 (torch_tensor_f32 0) (torch_tensor_f32 0)
        \<lparr> a_pre = torch_tensor_f32 1, a_post = torch_tensor_f32 0 \<rparr>
        STDPSensorParameters_default_f32 dt_default) () = Finite 0"
proof -
  have h1: "is_finite (a_pre (snd (stdp_sensor_step_f32 (torch_tensor_f32 0) (torch_tensor_f32 0)
        \<lparr> a_pre = torch_tensor_f32 1, a_post = torch_tensor_f32 0 \<rparr>
        STDPSensorParameters_default_f32 dt_default)) ())"
    by (simp add: stdp_sensor_step_f32_a_pre STDPSensorParameters_default_f32_def dt_default_def
          torch_tensor_f32_def f32_eval)
  have h2: "is_finite (a_post (snd (stdp_sensor_step_f32 (torch_tensor_f32 0) (torch_tensor_f32 0)
        \<lparr> a_pre = torch_tensor_f32 1, a_post = torch_tensor_f32 0 \<rparr>
        STDPSensorParameters_default_f32 dt_default)) ())"
    by (simp add: stdp_sensor_step_f32_a_post STDPSensorParameters_default_f32_def dt_default_def
          torch_tensor_f32_def f32_eval)
  from stdp_sensor_step_f32_no_spikes_dw [OF h1 h2] h1 h2 show ?thesis by blast
qed

end
